theory Spec2Isabelle
  imports Complex_Main
begin

section \<open>Tensors\<close>

text \<open>
  A torch tensor is a shape together with its entries in row-major order. The entries of a
  floating-point tensor are real numbers; a mask produced by a comparison has boolean
  entries.
\<close>

record 'a tensor =
  shape :: "nat list"
  data :: "'a list"

definition wf_tensor :: "'a tensor \<Rightarrow> bool" where
  "wf_tensor t = (length (data t) = prod_list (shape t))"

definition numel :: "'a tensor \<Rightarrow> nat" where
  "numel t = length (data t)"

definition zeros :: "nat list \<Rightarrow> real tensor" where
  "zeros sh = \<lparr>shape = sh, data = replicate (prod_list sh) 0\<rparr>"

text \<open>\<^verbatim>\<open>torch.tensor([x, y, ...])\<close>: a one-dimensional tensor.\<close>

definition vec :: "'a list \<Rightarrow> 'a tensor" where
  "vec xs = \<lparr>shape = [length xs], data = xs\<rparr>"

text \<open>\<^verbatim>\<open>torch.flatten(t)\<close>: the same entries, as a one-dimensional tensor.\<close>

definition flatten :: "'a tensor \<Rightarrow> 'a tensor" where
  "flatten t = \<lparr>shape = [length (data t)], data = data t\<rparr>"

datatype error = RuntimeError | IndexError | TypeError

text \<open>
  Every floating-point operation returns its exact result rounded to the dtype of the
  tensors. The rounding is the parameter \<open>rnd\<close> of each operation below; \<open>exact\<close> is
  arithmetic without rounding.
\<close>

definition exact :: "real \<Rightarrow> real" where
  "exact x = x"

text \<open>
  \<^verbatim>\<open>a * b\<close> on one-dimensional tensors. Torch broadcasts: the two lengths are compatible
  when they are equal or one of them is 1, and the single entry is then repeated;
  otherwise the product raises a RuntimeError.
\<close>

definition tensor_mul :: "(real \<Rightarrow> real) \<Rightarrow> real tensor \<Rightarrow> real tensor \<Rightarrow> error + real tensor" where
  "tensor_mul rnd a b =
     (if length (data a) = length (data b) then
        Inr \<lparr>shape = shape a, data = map2 (\<lambda>x y. rnd (x * y)) (data a) (data b)\<rparr>
      else if length (data b) = 1 then
        Inr \<lparr>shape = shape a, data = map (\<lambda>x. rnd (x * hd (data b))) (data a)\<rparr>
      else if length (data a) = 1 then
        Inr \<lparr>shape = shape b, data = map (\<lambda>y. rnd (hd (data a) * y)) (data b)\<rparr>
      else Inl RuntimeError)"

text \<open>
  \<^verbatim>\<open>t.sum()\<close>: the entries are accumulated from zero, each addition rounded. Torch does
  not fix the order of the additions; the model adds from left to right. In exact
  arithmetic the order does not matter.
\<close>

definition tensor_sum :: "(real \<Rightarrow> real) \<Rightarrow> real tensor \<Rightarrow> real" where
  "tensor_sum rnd t = foldl (\<lambda>acc x. rnd (acc + x)) 0 (data t)"

text \<open>
  A zero-dimensional result. Floating-point division by zero raises nothing: it returns
  an infinity or NaN, and every operation on such a value is again an infinity or NaN.
\<close>

datatype scalar = Finite real | NonFinite

definition scalar_div :: "(real \<Rightarrow> real) \<Rightarrow> real \<Rightarrow> real \<Rightarrow> scalar" where
  "scalar_div rnd a b = (if b = 0 then NonFinite else Finite (rnd (a / b)))"

definition scalar_rsub :: "(real \<Rightarrow> real) \<Rightarrow> real \<Rightarrow> scalar \<Rightarrow> scalar" where
  "scalar_rsub rnd c s = (case s of Finite x \<Rightarrow> Finite (rnd (c - x)) | NonFinite \<Rightarrow> NonFinite)"

section \<open>The Dice loss\<close>

text \<open>
  \<^verbatim>\<open>
  def forward(self, pred, mask):
      pred = torch.flatten(pred)
      mask = torch.flatten(mask)
      counter = (pred * mask).sum()
      denum = pred.sum() + mask.sum() + 1e-8
      dice = (2*counter)/denum
      return 1 - dice
  \<close>
\<close>

definition DiceLoss_denum :: "(real \<Rightarrow> real) \<Rightarrow> real tensor \<Rightarrow> real tensor \<Rightarrow> real" where
  "DiceLoss_denum rnd pred mask' =
     rnd (rnd (tensor_sum rnd (flatten pred) + tensor_sum rnd (flatten mask')) + rnd (1 / 10 ^ 8))"

definition DiceLoss_forward :: "(real \<Rightarrow> real) \<Rightarrow> real tensor \<Rightarrow> real tensor \<Rightarrow> error + scalar" where
  "DiceLoss_forward rnd pred mask' =
     (case tensor_mul rnd (flatten pred) (flatten mask') of
        Inl e \<Rightarrow> Inl e
      | Inr prd \<Rightarrow>
          let counter = tensor_sum rnd prd;
              denum = DiceLoss_denum rnd pred mask';
              dice = scalar_div rnd (rnd (2 * counter)) denum
          in Inr (scalar_rsub rnd 1 dice))"

section \<open>Single-precision rounding\<close>

text \<open>
  The notebook trains in \<^verbatim>\<open>torch.float32\<close> (\<^verbatim>\<open>mask.float()\<close>, the network's output):
  a significand of 24 bits, the smallest normal binade at \<open>2\<^sup>-\<^sup>1\<^sup>2\<^sup>6\<close>, results rounded to the
  nearest representable number with ties to the even significand. \<open>round32 x\<close> is that
  number for every \<open>x\<close> that binary32 rounds to a finite number. Magnitudes from
  \<open>2\<^sup>1\<^sup>2\<^sup>8 - 2\<^sup>1\<^sup>0\<^sup>3\<close> on overflow to an infinity in binary32; \<open>round32\<close> has no infinity to
  return there, and it is used below at small values only.
\<close>

definition round_half_even :: "real \<Rightarrow> int" where
  "round_half_even x =
     (let f = \<lfloor>x\<rfloor>; d = x - of_int f
      in if d < 1 / 2 then f else if 1 / 2 < d then f + 1 else if even f then f else f + 1)"

primrec halvings :: "nat \<Rightarrow> real \<Rightarrow> nat" where
  "halvings 0 x = 0"
| "halvings (Suc n) x = (if x < 2 then 0 else Suc (halvings n (x / 2)))"

primrec doublings :: "nat \<Rightarrow> real \<Rightarrow> nat" where
  "doublings 0 x = 0"
| "doublings (Suc n) x = (if 1 \<le> x then 0 else Suc (doublings n (2 * x)))"

text \<open>The binary exponent of a positive number, not below that of the subnormals.\<close>

definition binade :: "real \<Rightarrow> int" where
  "binade x = (if 1 \<le> x then int (halvings 127 x) else - int (doublings 126 x))"

text \<open>The distance between neighbouring binary32 numbers around \<open>x\<close>.\<close>

definition ulp32 :: "real \<Rightarrow> real" where
  "ulp32 x = (let e = binade \<bar>x\<bar> - 23 in if 0 \<le> e then 2 ^ nat e else 1 / 2 ^ nat (- e))"

definition round32 :: "real \<Rightarrow> real" where
  "round32 x = of_int (round_half_even (x / ulp32 x)) * ulp32 x"

section \<open>The segmentation module\<close>

text \<open>\<^verbatim>\<open>t[0]\<close>: the first entry along the leading dimension; IndexError when there is none.\<close>

definition index0 :: "'a tensor \<Rightarrow> error + 'a tensor" where
  "index0 t =
     (case shape t of
        [] \<Rightarrow> Inl IndexError
      | n # sh \<Rightarrow>
          if n = 0 then Inl IndexError
          else Inr \<lparr>shape = sh, data = take (prod_list sh) (data t)\<rparr>)"

text \<open>\<^verbatim>\<open>t[0][0]\<close>\<close>

definition index00 :: "'a tensor \<Rightarrow> error + 'a tensor" where
  "index00 t = (case index0 t of Inl e \<Rightarrow> Inl e | Inr t0 \<Rightarrow> index0 t0)"

text \<open>\<^verbatim>\<open>t.unsqueeze(0)\<close>\<close>

definition unsqueeze0 :: "'a tensor \<Rightarrow> 'a tensor" where
  "unsqueeze0 t = \<lparr>shape = 1 # shape t, data = data t\<rparr>"

text \<open>\<^verbatim>\<open>t.float()\<close>: every entry converted to the floating-point dtype.\<close>

definition tensor_float :: "(real \<Rightarrow> real) \<Rightarrow> real tensor \<Rightarrow> real tensor" where
  "tensor_float rnd t = \<lparr>shape = shape t, data = map rnd (data t)\<rparr>"

text \<open>
  \<^verbatim>\<open>torch.sigmoid(t)\<close>, as the exact sigmoid rounded once. Torch's single-precision
  kernel may differ from that in the last bit; nothing below depends on the bits of a
  probability.
\<close>

definition tensor_sigmoid :: "(real \<Rightarrow> real) \<Rightarrow> real tensor \<Rightarrow> real tensor" where
  "tensor_sigmoid rnd t = \<lparr>shape = shape t, data = map (\<lambda>x. rnd (1 / (1 + exp (- x)))) (data t)\<rparr>"

text \<open>\<^verbatim>\<open>t > c\<close>, elementwise.\<close>

definition tensor_gt :: "real tensor \<Rightarrow> real \<Rightarrow> bool tensor" where
  "tensor_gt t c = \<lparr>shape = shape t, data = map (\<lambda>x. c < x) (data t)\<rparr>"

text \<open>
  \<^verbatim>\<open>np.ma.masked_where(a == 0, a)\<close>: the entries equal to zero are masked out (\<open>None\<close>),
  the others are kept. A boolean entry equals zero when it is False.
\<close>

definition masked_where_zero :: "real tensor \<Rightarrow> real option tensor" where
  "masked_where_zero a = \<lparr>shape = shape a, data = map (\<lambda>x. if x = 0 then None else Some x) (data a)\<rparr>"

definition masked_where_false :: "bool tensor \<Rightarrow> bool option tensor" where
  "masked_where_false a = \<lparr>shape = shape a, data = map (\<lambda>b. if \<not> b then None else Some b) (data a)\<rparr>"

text \<open>
  \<^verbatim>\<open>axis.imshow(a)\<close>: matplotlib draws an array of shape \<open>(M, N)\<close>, \<open>(M, N, 1)\<close>,
  \<open>(M, N, 3)\<close> or \<open>(M, N, 4)\<close> and raises TypeError ("Invalid shape ... for image data")
  for every other shape.
\<close>

definition image_shape :: "nat list \<Rightarrow> bool" where
  "image_shape sh =
     (length sh = 2 \<or> (length sh = 3 \<and> (sh ! 2 = 1 \<or> sh ! 2 = 3 \<or> sh ! 2 = 4)))"

definition imshow :: "'a tensor \<Rightarrow> error + 'a tensor" where
  "imshow a = (if image_shape (shape a) then Inr a else Inl TypeError)"

text \<open>
  The figure of \<open>log_images\<close>: on the left the first slice of the batch under its
  ground-truth mask, on the right the same slice under the thresholded prediction.
\<close>

record figure =
  left_image :: "real tensor"
  left_overlay :: "real option tensor"
  right_image :: "real tensor"
  right_overlay :: "bool option tensor"

text \<open>
  What a step sees of the LightningModule: the global step counter, the calls of
  \<^verbatim>\<open>self.log(name, value)\<close> and the calls of
  \<^verbatim>\<open>self.logger.experiment.add_figure(name, fig, self.global_step)\<close>, oldest first.
\<close>

record module_state =
  global_step :: nat
  logged :: "(string \<times> scalar) list"
  added_figures :: "(string \<times> figure \<times> nat) list"

definition self_log :: "string \<Rightarrow> scalar \<Rightarrow> module_state \<Rightarrow> module_state" where
  "self_log name v st = st\<lparr>logged := logged st @ [(name, v)]\<rparr>"

definition add_figure :: "string \<Rightarrow> figure \<Rightarrow> module_state \<Rightarrow> module_state" where
  "add_figure name fig st = st\<lparr>added_figures := added_figures st @ [(name, fig, global_step st)]\<rparr>"

text \<open>
  \<^verbatim>\<open>
  def forward(self, data):
      return torch.sigmoid(self.model(data))
  \<close>
  The network (\<^verbatim>\<open>from model import UNet\<close>) is the parameter \<open>unet\<close>, a function: an
  input that the network rejects is outside the model.
\<close>

definition AtriumSegmentation_forward ::
  "(real \<Rightarrow> real) \<Rightarrow> (real tensor \<Rightarrow> real tensor) \<Rightarrow> real tensor \<Rightarrow> real tensor" where
  "AtriumSegmentation_forward rnd unet x = tensor_sigmoid rnd (unet x)"

text \<open>
  \<^verbatim>\<open>
  def log_images(self, mri, pred, mask, name):
      pred = pred > 0.5
      fig, axis = plt.subplots(1, 2)
      axis[0].imshow(mri[0][0], cmap="bone")
      mask_ = np.ma.masked_where(mask[0][0] == 0, mask[0][0])
      axis[0].imshow(mask_, alpha=0.6)
      axis[1].imshow(mri[0][0], cmap="bone")
      mask_ = np.ma.masked_where(pred[0][0] == 0, pred[0][0])
      axis[1].imshow(mask_, alpha=0.6)
      self.logger.experiment.add_figure(name, fig, self.global_step)
  \<close>
\<close>

definition log_images ::
  "real tensor \<Rightarrow> real tensor \<Rightarrow> real tensor \<Rightarrow> string \<Rightarrow> module_state \<Rightarrow> error + module_state" where
  "log_images mri pred mask' name st =
     (let pred' = tensor_gt pred (1 / 2) in
      case index00 mri of Inl e \<Rightarrow> Inl e | Inr mri00 \<Rightarrow>
      case imshow mri00 of Inl e \<Rightarrow> Inl e | Inr left \<Rightarrow>
      case index00 mask' of Inl e \<Rightarrow> Inl e | Inr mask00 \<Rightarrow>
      case imshow (masked_where_zero mask00) of Inl e \<Rightarrow> Inl e | Inr left_over \<Rightarrow>
      case imshow mri00 of Inl e \<Rightarrow> Inl e | Inr right \<Rightarrow>
      case index00 pred' of Inl e \<Rightarrow> Inl e | Inr pred00 \<Rightarrow>
      case imshow (masked_where_false pred00) of Inl e \<Rightarrow> Inl e | Inr right_over \<Rightarrow>
        Inr (add_figure name
               \<lparr>left_image = left, left_overlay = left_over,
                right_image = right, right_overlay = right_over\<rparr> st))"

text \<open>
  \<^verbatim>\<open>
  def training_step(self, batch, batch_idx):
      mri, mask = batch
      mask = mask.float()
      pred = self(mri)
      loss = self.loss_fn(pred, mask)
      self.log("Train Dice", loss)
      if batch_idx % 50 == 0:
          self.log_images(mri.cpu(), pred.cpu(), mask.cpu(), "Train")
      return loss
  \<close>
  \<open>validation_step\<close> is the same with \<^verbatim>\<open>"Val Dice"\<close>, \<^verbatim>\<open>batch_idx % 2\<close> and \<^verbatim>\<open>"Val"\<close>.
  A step returns the loss together with the module's state after it, or the exception
  that ended it.
\<close>

definition training_step ::
  "(real \<Rightarrow> real) \<Rightarrow> (real tensor \<Rightarrow> real tensor) \<Rightarrow> module_state \<Rightarrow>
   real tensor \<times> real tensor \<Rightarrow> int \<Rightarrow> error + scalar \<times> module_state" where
  "training_step rnd unet st batch batch_idx =
     (let mri = fst batch;
          mask' = tensor_float rnd (snd batch);
          pred = AtriumSegmentation_forward rnd unet mri
      in case DiceLoss_forward rnd pred mask' of Inl e \<Rightarrow> Inl e | Inr loss \<Rightarrow>
         let st1 = self_log ''Train Dice'' loss st
         in if batch_idx mod 50 = 0 then
              (case log_images mri pred mask' ''Train'' st1 of
                 Inl e \<Rightarrow> Inl e
               | Inr st2 \<Rightarrow> Inr (loss, st2))
            else Inr (loss, st1))"

definition validation_step ::
  "(real \<Rightarrow> real) \<Rightarrow> (real tensor \<Rightarrow> real tensor) \<Rightarrow> module_state \<Rightarrow>
   real tensor \<times> real tensor \<Rightarrow> int \<Rightarrow> error + scalar \<times> module_state" where
  "validation_step rnd unet st batch batch_idx =
     (let mri = fst batch;
          mask' = tensor_float rnd (snd batch);
          pred = AtriumSegmentation_forward rnd unet mri
      in case DiceLoss_forward rnd pred mask' of Inl e \<Rightarrow> Inl e | Inr loss \<Rightarrow>
         let st1 = self_log ''Val Dice'' loss st
         in if batch_idx mod 2 = 0 then
              (case log_images mri pred mask' ''Val'' st1 of
                 Inl e \<Rightarrow> Inl e
               | Inr st2 \<Rightarrow> Inr (loss, st2))
            else Inr (loss, st1))"

section \<open>Slice-by-slice inference\<close>

text \<open>
  The preprocessed scan is a three-dimensional array (the notebook prints its shape,
  \<^verbatim>\<open>(336, 336, 180)\<close>); \<open>voxels\<close> holds its \<open>rows \<times> cols \<times> depth\<close> entries in
  row-major order.
\<close>

record volume =
  rows :: nat
  cols :: nat
  depth :: nat
  voxels :: "real list"

text \<open>\<^verbatim>\<open>standardized_scan[:,:,i]\<close>; IndexError when \<open>i\<close> is not below the depth.\<close>

definition scan_slice :: "volume \<Rightarrow> nat \<Rightarrow> error + real tensor" where
  "scan_slice scan i =
     (if i < depth scan then
        Inr \<lparr>shape = [rows scan, cols scan],
             data = map (\<lambda>k. voxels scan ! (k * depth scan + i)) [0..<rows scan * cols scan]\<rparr>
      else Inl IndexError)"

text \<open>
  \<^verbatim>\<open>
  preds = []
  for i in range(standardized_scan.shape[-1]):
      slice = standardized_scan[:,:,i]
      with torch.no_grad():
          pred = model(torch.tensor(slice).unsqueeze(0).unsqueeze(0).float().to(device))[0][0]
          pred = pred > 0.5
      preds.append(pred.cpu())
  \<close>
\<close>

definition slice_probability ::
  "(real \<Rightarrow> real) \<Rightarrow> (real tensor \<Rightarrow> real tensor) \<Rightarrow> volume \<Rightarrow> nat \<Rightarrow> error + real tensor" where
  "slice_probability rnd unet scan i =
     (case scan_slice scan i of
        Inl e \<Rightarrow> Inl e
      | Inr slice \<Rightarrow>
          index00 (AtriumSegmentation_forward rnd unet
                     (tensor_float rnd (unsqueeze0 (unsqueeze0 slice)))))"

fun predict_slices ::
  "(real \<Rightarrow> real) \<Rightarrow> (real tensor \<Rightarrow> real tensor) \<Rightarrow> volume \<Rightarrow> nat list \<Rightarrow>
   bool tensor list \<Rightarrow> error + bool tensor list" where
  "predict_slices rnd unet scan [] preds = Inr preds"
| "predict_slices rnd unet scan (i # is) preds =
     (case slice_probability rnd unet scan i of
        Inl e \<Rightarrow> Inl e
      | Inr pred \<Rightarrow> predict_slices rnd unet scan is (preds @ [tensor_gt pred (1 / 2)]))"

definition predict_volume ::
  "(real \<Rightarrow> real) \<Rightarrow> (real tensor \<Rightarrow> real tensor) \<Rightarrow> volume \<Rightarrow> error + bool tensor list" where
  "predict_volume rnd unet scan = predict_slices rnd unet scan [0..<depth scan] []"

section \<open>Checkpoint selection\<close>

text \<open>
  \<^verbatim>\<open>
  checkpoint_callback = ModelCheckpoint(
      monitor='Val Dice',
      save_top_k=10,
      mode='min')
  \<close>
\<close>

datatype mode = Min | Max

record ModelCheckpoint =
  monitor :: string
  save_top_k :: nat
  mode :: mode

definition checkpoint_callback :: ModelCheckpoint where
  "checkpoint_callback = \<lparr>monitor = ''Val Dice'', save_top_k = 10, mode = Min\<rparr>"

text \<open>
  A checkpoint record: a snapshot of the model state, the epoch it was taken in, and the
  value of the monitored metric.
\<close>

record 's checkpoint =
  snapshot :: 's
  epoch :: nat
  metric :: real

text \<open>
  Modelled from the spec: the class \<^verbatim>\<open>ModelCheckpoint\<close> is imported from
  \<^verbatim>\<open>pytorch_lightning.callbacks\<close> and its selection rule is not in the notebook. The
  retained checkpoints are a list of at most \<open>K\<close> records ordered by the monitored metric,
  lowest first. After a validation epoch the candidate is inserted in order when fewer
  than \<open>K\<close> records are retained or when its metric is lower than that of the worst
  retained record, and the worst record is evicted when the list then exceeds \<open>K\<close>;
  otherwise the candidate is discarded.
\<close>

definition on_validation_end :: "nat \<Rightarrow> 's checkpoint list \<Rightarrow> 's checkpoint \<Rightarrow> 's checkpoint list" where
  "on_validation_end K retained c =
     (if length retained < K \<or> (retained \<noteq> [] \<and> metric c < metric (last retained)) then
        let inserted = insort_key metric c retained
        in if K < length inserted then butlast inserted else inserted
      else retained)"

text \<open>The retained list after the candidates of successive validation epochs, from none.\<close>

definition retained_after :: "nat \<Rightarrow> 's checkpoint list \<Rightarrow> 's checkpoint list" where
  "retained_after K cs = foldl (on_validation_end K) [] cs"

section \<open>Sample inputs\<close>

text \<open>
  A batch of one image of \<open>1 \<times> 2\<close> pixels with its mask, a module state, a scan of one
  slice, and the four candidates of the checkpoint scenario (metrics 0.5, 0.3, 0.4, 0.2 in
  the order of their epochs).
\<close>

definition sample_image :: "real tensor" where
  "sample_image = \<lparr>shape = [1, 1, 1, 2], data = [0, 0]\<rparr>"

definition sample_mask :: "real tensor" where
  "sample_mask = \<lparr>shape = [1, 1, 1, 2], data = [1, 0]\<rparr>"

definition sample_state :: module_state where
  "sample_state = \<lparr>global_step = 7, logged = [], added_figures = []\<rparr>"

definition sample_scan :: volume where
  "sample_scan = \<lparr>rows = 1, cols = 2, depth = 1, voxels = [0, 0]\<rparr>"

definition scenario :: "unit checkpoint list" where
  "scenario =
     [\<lparr>snapshot = (), epoch = 0, metric = 5 / 10\<rparr>, \<lparr>snapshot = (), epoch = 1, metric = 3 / 10\<rparr>,
      \<lparr>snapshot = (), epoch = 2, metric = 4 / 10\<rparr>, \<lparr>snapshot = (), epoch = 3, metric = 2 / 10\<rparr>]"

definition sample_figure :: figure where
  "sample_figure =
     \<lparr>left_image = \<lparr>shape = [1, 2], data = [0, 0]\<rparr>,
      left_overlay = \<lparr>shape = [1, 2], data = [Some 1, None]\<rparr>,
      right_image = \<lparr>shape = [1, 2], data = [0, 0]\<rparr>,
      right_overlay = \<lparr>shape = [1, 2], data = [None, None]\<rparr>\<rparr>"

section \<open>Single-precision values\<close>

lemmas round32_unfold =
  round32_def ulp32_def binade_def round_half_even_def eval_nat_numeral Let_def

lemma round32_epsilon: "round32 (1 / 100000000) = 11258999 / 1125899906842624"
  by code_simp

lemma round32_absorb:
  "round32 (1 + 11258999 / 1125899906842624) = 1"
  "round32 (3 + 11258999 / 1125899906842624) = 3"
  "round32 (4 + 11258999 / 1125899906842624) = 4"
  by (simp_all add: round32_unfold)

lemma round32_epsilon_absorbed:
  "round32 (1 + round32 (1 / 100000000)) = 1"
  "round32 (3 + round32 (1 / 100000000)) = 3"
  "round32 (4 + round32 (1 / 100000000)) = 4"
  by (simp_all only: round32_epsilon round32_absorb)

lemma round32_epsilon_kept:
  "round32 (round32 (1 / 100000000)) = 11258999 / 1125899906842624"
proof -
  have "round32 (11258999 / 1125899906842624) = 11258999 / 1125899906842624"
    by (simp add: round32_unfold)
  then show ?thesis by (simp only: round32_epsilon)
qed

lemma round32_exact_values:
  "round32 0 = 0" "round32 1 = 1" "round32 2 = 2" "round32 3 = 3" "round32 4 = 4" "round32 8 = 8"
  "round32 (- 1) = - 1" "round32 (1 / 2) = 1 / 2" "round32 (1 / 4) = 1 / 4"
  by (simp_all add: round32_unfold)

lemma round32_inexact_values:
  "round32 (2 / 3) = 11184811 / 16777216"
  "round32 (5592405 / 16777216) = 5592405 / 16777216"
  "round32 (4 / 3) = 11184811 / 8388608"
  "round32 (- (2796203 / 8388608)) = - (2796203 / 8388608)"
  by (simp_all add: round32_unfold)

lemmas DiceLoss_unfold = DiceLoss_forward_def DiceLoss_denum_def tensor_mul_def tensor_sum_def
  flatten_def vec_def scalar_div_def scalar_rsub_def

lemmas round32_values = round32_exact_values round32_epsilon_absorbed round32_inexact_values

section \<open>The Dice loss in exact arithmetic\<close>

lemma foldl_add_sum_list: "foldl (\<lambda>acc x. acc + x) (a::real) xs = a + sum_list xs"
  by (induction xs arbitrary: a) simp_all

lemma tensor_sum_exact: "tensor_sum exact t = sum_list (data t)"
  by (simp add: tensor_sum_def exact_def foldl_add_sum_list)

lemma sum_list_map2_index:
  "length xs = length ys \<Longrightarrow>
   sum_list (map2 (\<lambda>x y. x * y) xs ys) = (\<Sum>i<length xs. xs ! i * ys ! (i::nat) :: real)"
proof (induction xs ys rule: list_induct2)
  case Nil
  then show ?case by simp
next
  case (Cons x xs y ys)
  have "(\<Sum>i<Suc (length xs). (x # xs) ! i * (y # ys) ! i) =
        x * y + (\<Sum>i<length xs. xs ! i * ys ! i)"
    by (simp add: sum.lessThan_Suc_shift del: sum.lessThan_Suc)
  with Cons show ?case by simp
qed

lemma DiceLoss_denum_exact:
  "DiceLoss_denum exact P M = sum_list (data P) + sum_list (data M) + 1 / 10 ^ 8"
  by (simp add: DiceLoss_denum_def tensor_sum_exact flatten_def) (simp add: exact_def)

lemma same_shape_same_length:
  "wf_tensor P \<Longrightarrow> wf_tensor M \<Longrightarrow> shape P = shape M \<Longrightarrow> length (data P) = length (data M)"
  by (simp add: wf_tensor_def)

text \<open>The loss for flattened lengths that agree.\<close>

lemma DiceLoss_forward_exact_list:
  assumes "length (data P) = length (data M)"
  shows "DiceLoss_forward exact P M =
     Inr (scalar_rsub exact 1 (scalar_div exact
            (2 * sum_list (map2 (*) (data P) (data M)))
            (sum_list (data P) + sum_list (data M) + 1 / 10 ^ 8)))"
  using assms
  by (simp add: DiceLoss_forward_def tensor_mul_def flatten_def tensor_sum_exact
      DiceLoss_denum_exact exact_def)

lemma DiceLoss_forward_exact_finite:
  assumes "length (data P) = length (data M)"
    and "0 \<le> sum_list (data P) + sum_list (data M)"
  shows "DiceLoss_forward exact P M =
     Inr (Finite (1 - 2 * sum_list (map2 (*) (data P) (data M)) /
                       (sum_list (data P) + sum_list (data M) + 1 / 10 ^ 8)))"
proof -
  have "sum_list (data P) + sum_list (data M) + 1 / 10 ^ 8 \<noteq> 0"
    using assms(2) by simp
  then show ?thesis
    by (simp add: DiceLoss_forward_exact_list [OF assms(1)] scalar_div_def scalar_rsub_def exact_def)
qed

lemma example_loss_exact:
  "DiceLoss_forward exact (vec [1, 1, 0, 0]) (vec [1, 0, 0, 0]) = Inr (Finite (1 - 2 / (3 + 1 / 10 ^ 8)))"
  by (simp add: DiceLoss_forward_exact_finite vec_def)

lemma example_loss_round32:
  "DiceLoss_forward round32 (vec [1, 1, 0, 0]) (vec [1, 0, 0, 0]) = Inr (Finite (5592405 / 2 ^ 24))"
  by (simp add: DiceLoss_unfold round32_values)

text \<open>
  Claim C1. For tensors \<open>P\<close> and \<open>M\<close> of the same shape, \<open>DiceLoss.forward\<close> returns
  \<open>1 - 2 \<Sum>\<^sub>i P\<^sub>i M\<^sub>i / (\<Sum>\<^sub>i P\<^sub>i + \<Sum>\<^sub>i M\<^sub>i + 10\<^sup>-\<^sup>8)\<close>, with the epsilon added whatever the
  inputs (a denominator that is zero, which needs negative entries, gives an infinity or
  NaN and no exception). For \<open>P = [1,1,0,0]\<close> and \<open>M = [1,0,0,0]\<close> the loss is within
  \<open>10\<^sup>-\<^sup>8\<close> of \<open>1/3\<close> in exact arithmetic and within \<open>10\<^sup>-\<^sup>7\<close> of it in single precision.
\<close>

theorem DiceLoss_forward_formula:
  assumes "wf_tensor P" and "wf_tensor M" and "shape P = shape M"
  shows "(let d = sum_list (data P) + sum_list (data M) + 1 / 10 ^ 8 in
          DiceLoss_forward exact P M =
            Inr (if d = 0 then NonFinite
                 else Finite (1 - 2 * (\<Sum>i<numel P. data P ! i * data M ! i) / d)))
       \<and> (\<exists>l. DiceLoss_forward exact (vec [1, 1, 0, 0]) (vec [1, 0, 0, 0]) = Inr (Finite l)
              \<and> \<bar>l - 1 / 3\<bar> < 1 / 10 ^ 8)
       \<and> (\<exists>l. DiceLoss_forward round32 (vec [1, 1, 0, 0]) (vec [1, 0, 0, 0]) = Inr (Finite l)
              \<and> \<bar>l - 1 / 3\<bar> < 1 / 10 ^ 7)"
proof -
  have len: "length (data P) = length (data M)"
    using assms by (rule same_shape_same_length)
  have general: "(let d = sum_list (data P) + sum_list (data M) + 1 / 10 ^ 8 in
          DiceLoss_forward exact P M =
            Inr (if d = 0 then NonFinite
                 else Finite (1 - 2 * (\<Sum>i<numel P. data P ! i * data M ! i) / d)))"
    using len
    by (simp add: DiceLoss_forward_exact_list sum_list_map2_index scalar_div_def scalar_rsub_def
        numel_def Let_def exact_def)
  have e1: "\<bar>(1 - 2 / (3 + 1 / 10 ^ 8)) - 1 / 3\<bar> < (1 / 10 ^ 8 :: real)"
    by simp
  have e2: "\<bar>5592405 / 2 ^ 24 - 1 / 3\<bar> < (1 / 10 ^ 7 :: real)"
    by simp
  show ?thesis
    using general e1 e2 example_loss_exact example_loss_round32 by blast
qed

theorem DiceLoss_forward_formula_witness:
  "wf_tensor (vec [1 / 2, 1 / 4 :: real]) \<and> wf_tensor (vec [1, 0 :: real])
   \<and> DiceLoss_forward exact (vec [1 / 2, 1 / 4]) (vec [1, 0]) = Inr (Finite (1 - 1 / (7 / 4 + 1 / 10 ^ 8)))"
  using DiceLoss_forward_formula [of "vec [1 / 2, 1 / 4]" "vec [1, 0]"]
  by (simp add: vec_def wf_tensor_def numel_def lessThan_Suc eval_nat_numeral Let_def)

text \<open>
  Claim C7. \<open>DiceLoss.forward\<close> is symmetric in its two arguments, for every rounding and
  every pair of tensors.
\<close>

theorem DiceLoss_forward_symmetric:
  "DiceLoss_forward rnd P M = DiceLoss_forward rnd M P"
proof -
  have m: "map2 (\<lambda>x y. rnd (x * y)) xs ys = map2 (\<lambda>x y. rnd (x * y)) ys xs" for xs ys :: "real list"
    by (induction xs ys rule: list_induct2') (simp_all add: mult.commute)
  show ?thesis
    by (auto simp add: DiceLoss_forward_def DiceLoss_denum_def tensor_mul_def flatten_def m
        add.commute mult.commute tensor_sum_def)
qed

section \<open>The range of the loss\<close>

lemma sum_list_nonneg_real: "\<forall>x\<in>set xs. 0 \<le> x \<Longrightarrow> 0 \<le> (sum_list xs :: real)"
  by (induction xs) simp_all

lemma prod_le_mean:
  fixes x y :: real
  assumes "0 \<le> x" "x \<le> 1" "0 \<le> y" "y \<le> 1"
  shows "2 * (x * y) \<le> x + y"
proof -
  have "x * y \<le> x * 1" using assms by (intro mult_left_mono) simp_all
  moreover have "x * y \<le> 1 * y" using assms by (intro mult_right_mono) simp_all
  ultimately show ?thesis by simp
qed

lemma overlap_le_sums:
  fixes xs ys :: "real list"
  assumes "length xs = length ys"
    and "\<forall>x\<in>set xs. 0 \<le> x \<and> x \<le> 1" and "\<forall>y\<in>set ys. 0 \<le> y \<and> y \<le> 1"
  shows "2 * sum_list (map2 (*) xs ys) \<le> sum_list xs + sum_list ys"
  using assms
proof (induction xs ys rule: list_induct2)
  case Nil
  then show ?case by simp
next
  case (Cons x xs y ys)
  then have "2 * (x * y) \<le> x + y"
    by (intro prod_le_mean) simp_all
  moreover have "2 * sum_list (map2 (*) xs ys) \<le> sum_list xs + sum_list ys"
    using Cons by simp
  ultimately show ?case by simp
qed

lemma overlap_nonneg:
  fixes xs ys :: "real list"
  assumes "\<forall>x\<in>set xs. 0 \<le> x" and "\<forall>y\<in>set ys. 0 \<le> y"
  shows "0 \<le> sum_list (map2 (*) xs ys)"
proof (rule sum_list_nonneg_real, clarsimp)
  fix a b assume "(a, b) \<in> set (zip xs ys)"
  then have "a \<in> set xs" "b \<in> set ys" by (auto dest: set_zip_leftD set_zip_rightD)
  with assms show "0 \<le> a * b" by simp
qed




section \<open>All-zero inputs\<close>

lemma foldl_round_zeros:
  "rnd 0 = 0 \<Longrightarrow> foldl (\<lambda>acc x. rnd (acc + x)) 0 (replicate n (0::real)) = 0"
  by (induction n) simp_all

lemma map2_round_zeros:
  "rnd 0 = 0 \<Longrightarrow> map2 (\<lambda>x y. rnd (x * y)) (replicate n (0::real)) (replicate n 0) = replicate n 0"
  by (induction n) simp_all

lemma DiceLoss_denum_zeros:
  assumes "rnd 0 = 0"
  shows "DiceLoss_denum rnd (zeros sh) (zeros sh) = rnd (rnd (1 / 10 ^ 8))"
  using assms by (simp add: DiceLoss_denum_def tensor_sum_def flatten_def zeros_def foldl_round_zeros)

text \<open>
  Any rounding that keeps 0 and 1 and does not flush the epsilon to zero returns the loss
  1 on all-zero inputs.
\<close>

lemma DiceLoss_forward_zeros:
  assumes "rnd 0 = 0" and "rnd 1 = 1" and "rnd (rnd (1 / 10 ^ 8)) \<noteq> 0"
  shows "DiceLoss_forward rnd (zeros sh) (zeros sh) = Inr (Finite 1)"
proof -
  have "tensor_mul rnd (flatten (zeros sh)) (flatten (zeros sh)) =
          Inr \<lparr>shape = [prod_list sh], data = replicate (prod_list sh) 0\<rparr>"
    using assms(1) by (simp add: tensor_mul_def flatten_def zeros_def map2_round_zeros)
  then show ?thesis
    using assms
    by (simp add: DiceLoss_forward_def DiceLoss_denum_zeros tensor_sum_def foldl_round_zeros
        scalar_div_def scalar_rsub_def)
qed

text \<open>
  Claim C3. On all-zero inputs of any shape the loss is exactly 1, never an infinity or
  NaN: the denominator is the epsilon, \<open>10\<^sup>-\<^sup>8\<close> in exact arithmetic and its nearest
  single-precision number \<open>11258999 / 2\<^sup>5\<^sup>0\<close> in binary32, both positive.
\<close>

theorem DiceLoss_forward_all_zero:
  "DiceLoss_forward exact (zeros sh) (zeros sh) = Inr (Finite 1)
   \<and> DiceLoss_denum exact (zeros sh) (zeros sh) = 1 / 10 ^ 8
   \<and> DiceLoss_forward round32 (zeros sh) (zeros sh) = Inr (Finite 1)
   \<and> DiceLoss_denum round32 (zeros sh) (zeros sh) = 11258999 / 2 ^ 50"
proof -
  have "DiceLoss_forward exact (zeros sh) (zeros sh) = Inr (Finite 1)"
    by (rule DiceLoss_forward_zeros) (simp_all add: exact_def)
  moreover have "DiceLoss_denum exact (zeros sh) (zeros sh) = 1 / 10 ^ 8"
    by (simp add: DiceLoss_denum_zeros exact_def)
  moreover have "DiceLoss_forward round32 (zeros sh) (zeros sh) = Inr (Finite 1)"
    by (rule DiceLoss_forward_zeros) (simp_all add: round32_exact_values round32_epsilon_kept)
  moreover have "DiceLoss_denum round32 (zeros sh) (zeros sh) = 11258999 / 2 ^ 50"
    by (simp add: DiceLoss_denum_zeros round32_exact_values round32_epsilon_kept)
  ultimately show ?thesis by simp
qed

section \<open>Mismatched lengths\<close>

lemma map2_nth:
  "length xs = length ys \<Longrightarrow> map2 f xs ys = map (\<lambda>i. f (xs ! i) (ys ! i)) [0..<length xs]"
  by (rule nth_equalityI) simp_all

lemma map_nth_upt: "map g xs = map (\<lambda>i. g (xs ! i)) [0..<length xs]"
  by (rule nth_equalityI) simp_all

lemma single_entry: "length xs = 1 \<Longrightarrow> hd xs = xs ! 0"
  by (cases xs) simp_all

lemma sum_list_single: "length xs = 1 \<Longrightarrow> sum_list xs = (xs ! 0 :: real)"
  by (cases xs) simp_all

lemma sum_list_map_index:
  "sum_list (map g xs) = (\<Sum>i<length xs. g (xs ! i) :: real)"
proof -
  have "sum_list (map g xs) = sum_list (map (\<lambda>i. g (xs ! i)) [0..<length xs])"
    by (subst map_nth_upt) simp
  also have "\<dots> = (\<Sum>i<length xs. g (xs ! i))"
    by (simp add: sum_list_sum_nth atLeast0LessThan)
  finally show ?thesis .
qed

text \<open>
  Claim C4, as amended. When the two flattened lengths differ and neither of them is 1,
  \<open>DiceLoss.forward\<close> raises the RuntimeError of the elementwise product. When they are
  equal, or one of them is 1, it returns a loss. For equal lengths the intersection adds
  the product of every pair of entries. For a mask of one entry \<open>m\<close> it adds \<open>P\<^sub>i m\<close> for
  every entry of the prediction, so the single entry is broadcast and no entry of the
  longer input is dropped, while the denominator adds \<open>m\<close> once: in exact arithmetic the
  loss is \<open>1 - 2 \<Sum>\<^sub>i P\<^sub>i m / (\<Sum>\<^sub>i P\<^sub>i + m + 10\<^sup>-\<^sup>8)\<close>. A prediction of one entry is
  treated in the same way.
\<close>

theorem DiceLoss_forward_mismatch:
  "(numel P \<noteq> numel M \<and> numel P \<noteq> 1 \<and> numel M \<noteq> 1 \<longrightarrow>
      DiceLoss_forward rnd P M = Inl RuntimeError)
   \<and> (numel P = numel M \<or> numel P = 1 \<or> numel M = 1 \<longrightarrow>
      (\<exists>l. DiceLoss_forward rnd P M = Inr l))
   \<and> (numel P = numel M \<longrightarrow>
      DiceLoss_forward rnd P M =
        Inr (scalar_rsub rnd 1 (scalar_div rnd
          (rnd (2 * tensor_sum rnd (vec (map (\<lambda>i. rnd (data P ! i * data M ! i)) [0..<numel P]))))
          (DiceLoss_denum rnd P M)))
      \<and> (let d = sum_list (data P) + sum_list (data M) + 1 / 10 ^ 8 in
           DiceLoss_forward exact P M =
             Inr (if d = 0 then NonFinite
                  else Finite (1 - 2 * (\<Sum>i<numel P. data P ! i * data M ! i) / d))))
   \<and> (numel M = 1 \<and> numel P \<noteq> 1 \<longrightarrow>
      DiceLoss_forward rnd P M =
        Inr (scalar_rsub rnd 1 (scalar_div rnd
          (rnd (2 * tensor_sum rnd (vec (map (\<lambda>i. rnd (data P ! i * data M ! 0)) [0..<numel P]))))
          (DiceLoss_denum rnd P M)))
      \<and> (let d = sum_list (data P) + data M ! 0 + 1 / 10 ^ 8 in
           DiceLoss_forward exact P M =
             Inr (if d = 0 then NonFinite
                  else Finite (1 - 2 * (\<Sum>i<numel P. data P ! i * data M ! 0) / d))))
   \<and> (numel P = 1 \<and> numel M \<noteq> 1 \<longrightarrow>
      DiceLoss_forward rnd P M =
        Inr (scalar_rsub rnd 1 (scalar_div rnd
          (rnd (2 * tensor_sum rnd (vec (map (\<lambda>i. rnd (data P ! 0 * data M ! i)) [0..<numel M]))))
          (DiceLoss_denum rnd P M)))
      \<and> (let d = data P ! 0 + sum_list (data M) + 1 / 10 ^ 8 in
           DiceLoss_forward exact P M =
             Inr (if d = 0 then NonFinite
                  else Finite (1 - 2 * (\<Sum>i<numel M. data P ! 0 * data M ! i) / d))))"
proof (intro conjI impI)
  assume "numel P \<noteq> numel M \<and> numel P \<noteq> 1 \<and> numel M \<noteq> 1"
  then show "DiceLoss_forward rnd P M = Inl RuntimeError"
    by (simp add: DiceLoss_forward_def tensor_mul_def flatten_def numel_def)
next
  assume "numel P = numel M \<or> numel P = 1 \<or> numel M = 1"
  then show "\<exists>l. DiceLoss_forward rnd P M = Inr l"
    by (auto simp add: DiceLoss_forward_def tensor_mul_def flatten_def numel_def Let_def)
next
  assume "numel P = numel M"
  then have len: "length (data P) = length (data M)" by (simp add: numel_def)
  show "DiceLoss_forward rnd P M =
        Inr (scalar_rsub rnd 1 (scalar_div rnd
          (rnd (2 * tensor_sum rnd (vec (map (\<lambda>i. rnd (data P ! i * data M ! i)) [0..<numel P]))))
          (DiceLoss_denum rnd P M)))"
    using len map2_nth [OF len, of "\<lambda>x y. rnd (x * y)"]
    by (simp add: DiceLoss_forward_def tensor_mul_def flatten_def numel_def tensor_sum_def vec_def)
next
  assume "numel P = numel M"
  then have len: "length (data P) = length (data M)" by (simp add: numel_def)
  then show "let d = sum_list (data P) + sum_list (data M) + 1 / 10 ^ 8 in
           DiceLoss_forward exact P M =
             Inr (if d = 0 then NonFinite
                  else Finite (1 - 2 * (\<Sum>i<numel P. data P ! i * data M ! i) / d))"
    by (simp add: DiceLoss_forward_exact_list sum_list_map2_index scalar_div_def scalar_rsub_def
        numel_def Let_def exact_def)
next
  assume a: "numel M = 1 \<and> numel P \<noteq> 1"
  then have m: "length (data M) = 1" and p: "length (data P) \<noteq> 1"
    by (simp_all add: numel_def)
  have hd: "hd (data M) = data M ! 0" using m by (rule single_entry)
  show "DiceLoss_forward rnd P M =
        Inr (scalar_rsub rnd 1 (scalar_div rnd
          (rnd (2 * tensor_sum rnd (vec (map (\<lambda>i. rnd (data P ! i * data M ! 0)) [0..<numel P]))))
          (DiceLoss_denum rnd P M)))"
    using m p map_nth_upt [of "\<lambda>x. rnd (x * data M ! 0)" "data P"]
    by (simp add: DiceLoss_forward_def tensor_mul_def flatten_def numel_def tensor_sum_def vec_def hd)
next
  assume a: "numel M = 1 \<and> numel P \<noteq> 1"
  then have m: "length (data M) = 1" and p: "length (data P) \<noteq> 1"
    by (simp_all add: numel_def)
  have hd: "hd (data M) = data M ! 0" using m by (rule single_entry)
  have sm: "sum_list (data M) = data M ! 0" using m by (rule sum_list_single)
  have "DiceLoss_forward exact P M =
          Inr (scalar_rsub exact 1 (scalar_div exact
            (2 * sum_list (map (\<lambda>x. x * data M ! 0) (data P)))
            (sum_list (data P) + data M ! 0 + 1 / 10 ^ 8)))"
    using m p
    by (simp add: DiceLoss_forward_def tensor_mul_def flatten_def tensor_sum_exact
        DiceLoss_denum_exact hd sm exact_def)
  then show "let d = sum_list (data P) + data M ! 0 + 1 / 10 ^ 8 in
           DiceLoss_forward exact P M =
             Inr (if d = 0 then NonFinite
                  else Finite (1 - 2 * (\<Sum>i<numel P. data P ! i * data M ! 0) / d))"
    by (simp add: sum_list_map_index scalar_div_def scalar_rsub_def numel_def Let_def exact_def)
next
  assume a: "numel P = 1 \<and> numel M \<noteq> 1"
  then have p: "length (data P) = 1" and m: "length (data M) \<noteq> 1"
    by (simp_all add: numel_def)
  have hd: "hd (data P) = data P ! 0" using p by (rule single_entry)
  show "DiceLoss_forward rnd P M =
        Inr (scalar_rsub rnd 1 (scalar_div rnd
          (rnd (2 * tensor_sum rnd (vec (map (\<lambda>i. rnd (data P ! 0 * data M ! i)) [0..<numel M]))))
          (DiceLoss_denum rnd P M)))"
    using m p map_nth_upt [of "\<lambda>y. rnd (data P ! 0 * y)" "data M"]
    by (auto simp add: DiceLoss_forward_def tensor_mul_def flatten_def numel_def tensor_sum_def vec_def hd)
next
  assume a: "numel P = 1 \<and> numel M \<noteq> 1"
  then have p: "length (data P) = 1" and m: "length (data M) \<noteq> 1"
    by (simp_all add: numel_def)
  have hd: "hd (data P) = data P ! 0" using p by (rule single_entry)
  have sp: "sum_list (data P) = data P ! 0" using p by (rule sum_list_single)
  have "DiceLoss_forward exact P M =
          Inr (scalar_rsub exact 1 (scalar_div exact
            (2 * sum_list (map (\<lambda>y. data P ! 0 * y) (data M)))
            (data P ! 0 + sum_list (data M) + 1 / 10 ^ 8)))"
    using m p
    by (auto simp add: DiceLoss_forward_def tensor_mul_def flatten_def tensor_sum_exact
        DiceLoss_denum_exact hd sp exact_def)
  then show "let d = data P ! 0 + sum_list (data M) + 1 / 10 ^ 8 in
           DiceLoss_forward exact P M =
             Inr (if d = 0 then NonFinite
                  else Finite (1 - 2 * (\<Sum>i<numel M. data P ! 0 * data M ! i) / d))"
    by (simp add: sum_list_map_index scalar_div_def scalar_rsub_def numel_def Let_def exact_def)
qed

theorem DiceLoss_forward_mismatch_witness:
  "DiceLoss_forward exact (vec [1, 1, 0]) (vec [1, 0]) = Inl RuntimeError
   \<and> DiceLoss_forward exact (vec [1 / 2, 1 / 4, 1]) (vec [1 / 2]) = Inr (Finite (1 - (7 / 4) / (9 / 4 + 1 / 10 ^ 8)))
   \<and> DiceLoss_forward exact (vec [1 / 2]) (vec [1 / 2, 1 / 4, 1]) = Inr (Finite (1 - (7 / 4) / (9 / 4 + 1 / 10 ^ 8)))"
proof -
  let ?P = "vec [1 / 2, 1 / 4, 1 :: real]" and ?M = "vec [1 / 2 :: real]"
  have "numel (vec [1, 1, 0 :: real]) \<noteq> numel (vec [1, 0 :: real]) \<and> numel (vec [1, 1, 0 :: real]) \<noteq> 1
        \<and> numel (vec [1, 0 :: real]) \<noteq> 1"
    by (simp add: vec_def numel_def)
  with DiceLoss_forward_mismatch [of "vec [1, 1, 0]" "vec [1, 0]" exact]
  have raised: "DiceLoss_forward exact (vec [1, 1, 0]) (vec [1, 0]) = Inl RuntimeError"
    by blast
  have "numel ?M = 1 \<and> numel ?P \<noteq> 1"
    by (simp add: vec_def numel_def)
  with DiceLoss_forward_mismatch [of ?P ?M exact]
  have "let d = sum_list (data ?P) + data ?M ! 0 + 1 / 10 ^ 8 in
           DiceLoss_forward exact ?P ?M =
             Inr (if d = 0 then NonFinite
                  else Finite (1 - 2 * (\<Sum>i<numel ?P. data ?P ! i * data ?M ! 0) / d))"
    by blast
  then have right: "DiceLoss_forward exact ?P ?M = Inr (Finite (1 - (7 / 4) / (9 / 4 + 1 / 10 ^ 8)))"
    by (simp add: vec_def numel_def lessThan_Suc eval_nat_numeral Let_def)
  have "numel ?M = 1 \<and> numel ?P \<noteq> 1"
    by (simp add: vec_def numel_def)
  with DiceLoss_forward_mismatch [of ?M ?P exact]
  have "let d = data ?M ! 0 + sum_list (data ?P) + 1 / 10 ^ 8 in
           DiceLoss_forward exact ?M ?P =
             Inr (if d = 0 then NonFinite
                  else Finite (1 - 2 * (\<Sum>i<numel ?P. data ?M ! 0 * data ?P ! i) / d))"
    by blast
  then have left: "DiceLoss_forward exact ?M ?P = Inr (Finite (1 - (7 / 4) / (9 / 4 + 1 / 10 ^ 8)))"
    by (simp add: vec_def numel_def lessThan_Suc eval_nat_numeral Let_def)
  from raised right left show ?thesis by blast
qed

text \<open>
  Claim C4 as stated fails: a prediction of four entries and a mask of one entry cannot be
  flattened to equal lengths, and the loss is computed all the same, the single mask entry
  multiplied into every prediction entry.
\<close>

theorem DiceLoss_forward_broadcasts:
  "numel (vec [1, 1, 0, 0 :: real]) \<noteq> numel (vec [1 :: real])
   \<and> DiceLoss_forward exact (vec [1, 1, 0, 0]) (vec [1]) = Inr (Finite (1 - 4 / (3 + 1 / 10 ^ 8)))
   \<and> DiceLoss_forward round32 (vec [1, 1, 0, 0]) (vec [1]) = Inr (Finite (- 11184812 / 2 ^ 25))"
proof -
  have "DiceLoss_forward exact (vec [1, 1, 0, 0]) (vec [1]) = Inr (Finite (1 - 4 / (3 + 1 / 10 ^ 8)))"
    by (simp add: DiceLoss_unfold exact_def)
  moreover have "DiceLoss_forward round32 (vec [1, 1, 0, 0]) (vec [1]) = Inr (Finite (- 11184812 / 2 ^ 25))"
    by (simp add: DiceLoss_unfold round32_values)
  ultimately show ?thesis by (simp add: vec_def numel_def)
qed

section \<open>Self-overlap\<close>

lemma binary_self_overlap:
  fixes xs :: "real list"
  assumes "\<forall>x\<in>set xs. x = 0 \<or> x = 1"
  shows "sum_list (map2 (*) xs xs) = sum_list xs"
  using assms by (induction xs) auto

lemma binary_sum_ge_1:
  fixes xs :: "real list"
  assumes "\<forall>x\<in>set xs. x = 0 \<or> x = 1" and "\<exists>x\<in>set xs. x \<noteq> 0"
  shows "1 \<le> sum_list xs"
proof -
  from assms obtain x where x: "x \<in> set xs" "x = 1" by auto
  have nonneg: "\<forall>y\<in>set xs. 0 \<le> y" using assms(1) by auto
  from x(1) obtain ys zs where "xs = ys @ x # zs" by (auto simp: in_set_conv_decomp)
  moreover have "0 \<le> sum_list ys" "0 \<le> sum_list zs"
    using nonneg calculation by (auto intro: sum_list_nonneg_real)
  ultimately show ?thesis using x(2) by simp
qed

lemma self_overlap_loss:
  assumes "\<forall>x\<in>set (data X). x = 0 \<or> x = 1"
  shows "DiceLoss_forward exact X X =
           Inr (Finite ((1 / 10 ^ 8) / (2 * sum_list (data X) + 1 / 10 ^ 8)))"
proof -
  let ?s = "sum_list (data X)"
  have nonneg: "0 \<le> ?s" by (intro sum_list_nonneg_real) (use assms in auto)
  then have "DiceLoss_forward exact X X = Inr (Finite (1 - 2 * ?s / (?s + ?s + 1 / 10 ^ 8)))"
    using DiceLoss_forward_exact_finite [of X X] assms by (simp add: binary_self_overlap)
  moreover have "1 - 2 * ?s / (?s + ?s + 1 / 10 ^ 8) = (1 / 10 ^ 8) / (2 * ?s + 1 / 10 ^ 8)"
    using nonneg by (simp add: field_simps)
  ultimately show ?thesis by simp
qed

text \<open>
  Claim C8, as amended. For every binary tensor \<open>X\<close> (entries 0 or 1) that is not all-zero,
  the loss of \<open>X\<close> against itself is \<open>\<epsilon> / (2 \<Sum>\<^sub>i X\<^sub>i + \<epsilon>)\<close> in exact arithmetic, which
  lies strictly between 0 and \<open>5 \<times> 10\<^sup>-\<^sup>9\<close>.
\<close>

theorem DiceLoss_forward_self_binary:
  assumes "\<forall>x\<in>set (data X). x = 0 \<or> x = 1" and "\<exists>x\<in>set (data X). x \<noteq> 0"
  shows "\<exists>l. DiceLoss_forward exact X X = Inr (Finite l)
           \<and> l = (1 / 10 ^ 8) / (2 * sum_list (data X) + 1 / 10 ^ 8)
           \<and> 0 < l \<and> l < 1 / (2 * 10 ^ 8)"
proof -
  let ?s = "sum_list (data X)"
  have s: "1 \<le> ?s" using assms by (rule binary_sum_ge_1)
  have pos: "0 < (1 / 10 ^ 8) / (2 * ?s + 1 / 10 ^ 8)"
    using s by simp
  have "(1 / 10 ^ 8) / (2 * ?s + 1 / 10 ^ 8) < (1 / 10 ^ 8) / 2"
    using s by (intro divide_strict_left_mono) simp_all
  then have small: "(1 / 10 ^ 8) / (2 * ?s + 1 / 10 ^ 8) < 1 / (2 * 10 ^ 8)"
    by simp
  show ?thesis
    using self_overlap_loss [OF assms(1)] pos small by blast
qed

theorem DiceLoss_forward_self_binary_witness:
  "DiceLoss_forward exact (vec [1, 1, 0, 0]) (vec [1, 1, 0, 0]) = Inr (Finite ((1 / 10 ^ 8) / (4 + 1 / 10 ^ 8)))"
  using DiceLoss_forward_self_binary [of "vec [1, 1, 0, 0]"]
  by (auto simp add: vec_def)

text \<open>
  Claim C8 as stated fails: \<open>X = [1/2]\<close> is not all-zero, and its loss against itself is
  \<open>1 - (1/2) / (1 + 10\<^sup>-\<^sup>8)\<close>, above 0.49; in single precision it is exactly \<open>1/2\<close>.
\<close>

theorem DiceLoss_forward_self_half:
  "DiceLoss_forward exact (vec [1 / 2]) (vec [1 / 2]) = Inr (Finite (1 - (1 / 2) / (1 + 1 / 10 ^ 8)))
   \<and> (49 / 100 :: real) < 1 - (1 / 2) / (1 + 1 / 10 ^ 8)
   \<and> DiceLoss_forward round32 (vec [1 / 2]) (vec [1 / 2]) = Inr (Finite (1 / 2))"
proof -
  have "DiceLoss_forward exact (vec [1 / 2]) (vec [1 / 2]) =
          Inr (Finite (1 - (1 / 2) / (1 + 1 / 10 ^ 8)))"
    by (simp add: DiceLoss_forward_exact_finite vec_def)
  moreover have "DiceLoss_forward round32 (vec [1 / 2]) (vec [1 / 2]) = Inr (Finite (1 / 2))"
    by (simp add: DiceLoss_unfold round32_values)
  ultimately show ?thesis by simp
qed

text \<open>
  Claim C9, as amended. In exact arithmetic the loss of two tensors of the same shape with
  entries in \<open>[0, 1]\<close> is strictly positive and at most 1, and for identical binary masks it
  is \<open>\<epsilon> / (2 \<Sum>\<^sub>i X\<^sub>i + \<epsilon>)\<close>. (Under single-precision rounding the epsilon can vanish in the
  denominator, see below.)
\<close>

theorem DiceLoss_forward_positive:
  assumes "wf_tensor P" and "wf_tensor M" and "shape P = shape M"
    and "\<forall>x\<in>set (data P). 0 \<le> x \<and> x \<le> 1" and "\<forall>y\<in>set (data M). 0 \<le> y \<and> y \<le> 1"
  shows "\<exists>l. DiceLoss_forward exact P M = Inr (Finite l) \<and> 0 < l \<and> l \<le> 1
           \<and> (M = P \<and> (\<forall>x\<in>set (data P). x = 0 \<or> x = 1) \<longrightarrow>
                l = (1 / 10 ^ 8) / (2 * sum_list (data P) + 1 / 10 ^ 8))"
proof -
  let ?c = "sum_list (map2 (*) (data P) (data M))"
  let ?d = "sum_list (data P) + sum_list (data M) + 1 / 10 ^ 8"
  have len: "length (data P) = length (data M)"
    using assms(1-3) by (rule same_shape_same_length)
  have sums: "0 \<le> sum_list (data P) + sum_list (data M)"
    using assms(4,5) by (simp add: sum_list_nonneg_real)
  have d: "0 < ?d" using sums by simp
  have c: "0 \<le> ?c" using assms(4,5) by (intro overlap_nonneg) auto
  have eq: "DiceLoss_forward exact P M = Inr (Finite (1 - 2 * ?c / ?d))"
    using len sums by (rule DiceLoss_forward_exact_finite)
  have up: "1 - 2 * ?c / ?d \<le> 1"
    using c d by simp
  have "2 * ?c \<le> sum_list (data P) + sum_list (data M)"
    using len assms(4,5) by (rule overlap_le_sums)
  then have "2 * ?c < ?d" by simp
  then have "2 * ?c / ?d < 1" using d by (simp add: divide_less_eq)
  then have low: "0 < 1 - 2 * ?c / ?d" by simp
  have self: "1 - 2 * ?c / ?d = (1 / 10 ^ 8) / (2 * sum_list (data P) + 1 / 10 ^ 8)"
    if "M = P \<and> (\<forall>x\<in>set (data P). x = 0 \<or> x = 1)"
    using that eq self_overlap_loss [of P] by simp
  show ?thesis using eq up low self by blast
qed

theorem DiceLoss_forward_positive_witness:
  "\<exists>l. DiceLoss_forward exact (vec [1 / 2, 1 / 4]) (vec [1, 0]) = Inr (Finite l) \<and> 0 < l \<and> l \<le> 1"
  using DiceLoss_forward_positive [of "vec [1 / 2, 1 / 4]" "vec [1, 0]"]
  by (auto simp add: vec_def wf_tensor_def)

text \<open>
  Claim C9 as stated fails in the arithmetic the notebook runs in. For the identical binary
  masks \<open>[1,1,0,0]\<close> both totals are 2 and their sum is 4; neighbouring binary32 numbers
  around 4 are \<open>2\<^sup>-\<^sup>2\<^sup>1\<close> apart, so adding the epsilon returns 4 again, the dice score is
  \<open>4 / 4\<close> and the loss is exactly 0.
\<close>

theorem DiceLoss_forward_round32_zero_loss:
  "wf_tensor (vec [1, 1, 0, 0 :: real])
   \<and> DiceLoss_denum round32 (vec [1, 1, 0, 0]) (vec [1, 1, 0, 0]) = 4
   \<and> DiceLoss_forward round32 (vec [1, 1, 0, 0]) (vec [1, 1, 0, 0]) = Inr (Finite 0)"
proof -
  have "DiceLoss_denum round32 (vec [1, 1, 0, 0]) (vec [1, 1, 0, 0]) = 4"
    by (simp add: DiceLoss_unfold round32_values)
  moreover have "DiceLoss_forward round32 (vec [1, 1, 0, 0]) (vec [1, 1, 0, 0]) = Inr (Finite 0)"
    by (simp add: DiceLoss_unfold round32_values)
  ultimately show ?thesis by (simp add: vec_def wf_tensor_def)
qed

section \<open>Training and validation steps\<close>

lemma index0_tensor_gt:
  "index0 (tensor_gt t c) = (case index0 t of Inl e \<Rightarrow> Inl e | Inr t0 \<Rightarrow> Inr (tensor_gt t0 c))"
  by (simp add: index0_def tensor_gt_def take_map split: list.splits)

lemma index00_tensor_gt:
  "index00 (tensor_gt t c) = (case index00 t of Inl e \<Rightarrow> Inl e | Inr t0 \<Rightarrow> Inr (tensor_gt t0 c))"
  by (simp add: index00_def index0_tensor_gt split: sum.splits)

lemma imshow_Inr: "imshow a = Inr b \<Longrightarrow> b = a"
  by (simp add: imshow_def split: if_splits)

text \<open>What a call of \<open>log_images\<close> that returns has done.\<close>

lemma log_images_returns:
  assumes "log_images mri pred mask' name st = Inr st'"
  shows "\<exists>a b p. index00 mri = Inr a \<and> index00 mask' = Inr b \<and> index00 pred = Inr p
           \<and> st' = add_figure name
                 \<lparr>left_image = a, left_overlay = masked_where_zero b,
                  right_image = a, right_overlay = masked_where_false (tensor_gt p (1 / 2))\<rparr> st"
proof -
  obtain a where a: "index00 mri = Inr a"
    using assms by (cases "index00 mri") (simp_all add: log_images_def)
  have ia: "imshow a = Inr a"
    using assms a by (cases "imshow a") (simp_all add: log_images_def imshow_Inr)
  obtain b where b: "index00 mask' = Inr b"
    using assms a ia by (cases "index00 mask'") (simp_all add: log_images_def)
  have ib: "imshow (masked_where_zero b) = Inr (masked_where_zero b)"
    using assms a ia b
    by (cases "imshow (masked_where_zero b)") (simp_all add: log_images_def imshow_Inr)
  obtain p where p: "index00 pred = Inr p"
    using assms a ia b ib
    by (cases "index00 pred") (simp_all add: log_images_def index00_tensor_gt)
  let ?q = "masked_where_false (tensor_gt p (1 / 2))"
  have ip: "imshow ?q = Inr ?q"
    using assms a ia b ib p
    by (cases "imshow ?q") (simp_all add: log_images_def index00_tensor_gt imshow_Inr)
  have "st' = add_figure name
                 \<lparr>left_image = a, left_overlay = masked_where_zero b,
                  right_image = a, right_overlay = ?q\<rparr> st"
    using assms a ia b ib p ip by (simp add: log_images_def index00_tensor_gt)
  with a b p show ?thesis by blast
qed



lemma sample_prediction:
  "AtriumSegmentation_forward exact (\<lambda>x. x) sample_image = \<lparr>shape = [1, 1, 1, 2], data = [1 / 2, 1 / 2]\<rparr>"
  by (simp add: AtriumSegmentation_forward_def tensor_sigmoid_def sample_image_def exact_def)

lemma sample_loss:
  "DiceLoss_forward exact (AtriumSegmentation_forward exact (\<lambda>x. x) sample_image)
     (tensor_float exact sample_mask) = Inr (Finite (1 - 1 / (2 + 1 / 10 ^ 8)))"
  by (simp add: sample_prediction DiceLoss_forward_exact_finite tensor_float_def sample_mask_def
      exact_def)

lemma sample_log_images:
  "log_images sample_image (AtriumSegmentation_forward exact (\<lambda>x. x) sample_image)
      (tensor_float exact sample_mask) name st = Inr (add_figure name sample_figure st)"
  by (simp only: sample_prediction)
     (simp add: log_images_def index00_def index0_def tensor_gt_def imshow_def image_shape_def
      tensor_float_def masked_where_zero_def masked_where_false_def sample_image_def
      sample_mask_def sample_figure_def exact_def)


lemma sample_training_step_plain:
  "training_step exact (\<lambda>x. x) sample_state (sample_image, sample_mask) 3 =
     Inr (Finite (1 - 1 / (2 + 1 / 10 ^ 8)),
          \<lparr>global_step = 7, logged = [(''Train Dice'', Finite (1 - 1 / (2 + 1 / 10 ^ 8)))],
           added_figures = []\<rparr>)"
  by (simp add: training_step_def Let_def sample_loss self_log_def sample_state_def)

lemma sample_validation_step:
  "validation_step exact (\<lambda>x. x) sample_state (sample_image, sample_mask) 3 =
     Inr (Finite (1 - 1 / (2 + 1 / 10 ^ 8)),
          \<lparr>global_step = 7, logged = [(''Val Dice'', Finite (1 - 1 / (2 + 1 / 10 ^ 8)))],
           added_figures = []\<rparr>)"
  by (simp add: validation_step_def Let_def sample_loss self_log_def sample_state_def)



section \<open>Thresholding\<close>

lemma predict_slices_threshold:
  assumes "predict_slices rnd unet scan is acc = Inr preds"
  shows "\<exists>ps. preds = acc @ ps \<and> length ps = length is
           \<and> (\<forall>k<length is. \<exists>p. slice_probability rnd unet scan (is ! k) = Inr p
                  \<and> ps ! k = tensor_gt p (1 / 2))"
  using assms
proof (induction "is" arbitrary: acc)
  case Nil
  then show ?case by simp
next
  case (Cons i "is")
  from Cons.prems obtain p where p: "slice_probability rnd unet scan i = Inr p"
    and rest: "predict_slices rnd unet scan is (acc @ [tensor_gt p (1 / 2)]) = Inr preds"
    by (auto split: sum.splits)
  from Cons.IH [OF rest] obtain ps where ps: "preds = (acc @ [tensor_gt p (1 / 2)]) @ ps"
    "length ps = length is"
    "\<forall>k<length is. \<exists>q. slice_probability rnd unet scan (is ! k) = Inr q \<and> ps ! k = tensor_gt q (1 / 2)"
    by blast
  have "\<forall>k<length (i # is). \<exists>q. slice_probability rnd unet scan ((i # is) ! k) = Inr q
          \<and> (tensor_gt p (1 / 2) # ps) ! k = tensor_gt q (1 / 2)"
  proof (intro allI impI)
    fix k assume "k < length (i # is)"
    then show "\<exists>q. slice_probability rnd unet scan ((i # is) ! k) = Inr q
          \<and> (tensor_gt p (1 / 2) # ps) ! k = tensor_gt q (1 / 2)"
      using p ps(3) by (cases k) simp_all
  qed
  with ps(1,2) show ?case by simp
qed

lemma predict_slices_total:
  assumes "\<forall>i\<in>set is. \<exists>p. slice_probability rnd unet scan i = Inr p"
  shows "\<exists>preds. predict_slices rnd unet scan is acc = Inr preds"
  using assms by (induction "is" arbitrary: acc) auto

lemma sample_slice_probability:
  "slice_probability exact (\<lambda>x. x) sample_scan 0 = Inr \<lparr>shape = [1, 2], data = [1 / 2, 1 / 2]\<rparr>"
  by (simp add: slice_probability_def AtriumSegmentation_forward_def tensor_sigmoid_def
      tensor_float_def unsqueeze0_def scan_slice_def sample_scan_def index00_def index0_def exact_def
      eval_nat_numeral)

lemma sample_predict_volume:
  "predict_volume exact (\<lambda>x. x) sample_scan = Inr [\<lparr>shape = [1, 2], data = [False, False]\<rparr>]"
proof -
  have "[0..<depth sample_scan] = [0]" by (simp add: sample_scan_def)
  then show ?thesis by (simp add: predict_volume_def sample_slice_probability tensor_gt_def)
qed

text \<open>
  Claim C10. Both binarizations compare with \<open>pred > 0.5\<close>. In the figure that
  \<open>log_images\<close> adds, a pixel of the prediction overlay is foreground exactly when its
  probability is strictly above \<open>1/2\<close>, and is masked out as background when the
  probability is exactly \<open>1/2\<close>. In the inference loop the mask of slice \<open>i\<close> has the value
  True at a pixel exactly when the probability there is strictly above \<open>1/2\<close>, so a
  probability of exactly \<open>1/2\<close> gives False. The loop returns one mask per slice, and it
  returns whenever the network's output can be indexed for every slice.
\<close>

theorem threshold_strict:
  "(log_images mri pred mask' name st = Inr st' \<longrightarrow>
      (\<exists>fig p. added_figures st' = added_figures st @ [(name, fig, global_step st)]
         \<and> index00 pred = Inr p
         \<and> length (data (right_overlay fig)) = length (data p)
         \<and> (\<forall>j<length (data p).
               data (right_overlay fig) ! j = (if 1 / 2 < data p ! j then Some True else None)
               \<and> (data p ! j = 1 / 2 \<longrightarrow> data (right_overlay fig) ! j = None))))
   \<and> (predict_volume rnd unet scan = Inr preds \<longrightarrow>
      length preds = depth scan
      \<and> (\<forall>i<depth scan. \<exists>p. slice_probability rnd unet scan i = Inr p
            \<and> length (data (preds ! i)) = length (data p)
            \<and> (\<forall>j<length (data p).
                  data (preds ! i) ! j = (1 / 2 < data p ! j)
                  \<and> (data p ! j = 1 / 2 \<longrightarrow> \<not> data (preds ! i) ! j))))
   \<and> ((\<forall>i<depth scan. \<exists>p. slice_probability rnd unet scan i = Inr p) \<longrightarrow>
        (\<exists>preds. predict_volume rnd unet scan = Inr preds))"
proof (intro conjI impI)
  assume "log_images mri pred mask' name st = Inr st'"
  then obtain a b p where p: "index00 pred = Inr p"
    and st': "st' = add_figure name
               \<lparr>left_image = a, left_overlay = masked_where_zero b,
                right_image = a, right_overlay = masked_where_false (tensor_gt p (1 / 2))\<rparr> st"
    using log_images_returns by blast
  show "\<exists>fig p. added_figures st' = added_figures st @ [(name, fig, global_step st)]
         \<and> index00 pred = Inr p
         \<and> length (data (right_overlay fig)) = length (data p)
         \<and> (\<forall>j<length (data p).
               data (right_overlay fig) ! j = (if 1 / 2 < data p ! j then Some True else None)
               \<and> (data p ! j = 1 / 2 \<longrightarrow> data (right_overlay fig) ! j = None))"
    using p by (auto simp add: st' add_figure_def masked_where_false_def tensor_gt_def)
next
  assume run: "predict_volume rnd unet scan = Inr preds"
  from predict_slices_threshold [OF run [unfolded predict_volume_def]]
  have len: "length preds = depth scan"
    and each: "\<forall>k<depth scan. \<exists>p. slice_probability rnd unet scan k = Inr p
                 \<and> preds ! k = tensor_gt p (1 / 2)"
    by auto
  show "length preds = depth scan" by (rule len)
  show "\<forall>i<depth scan. \<exists>p. slice_probability rnd unet scan i = Inr p
            \<and> length (data (preds ! i)) = length (data p)
            \<and> (\<forall>j<length (data p).
                  data (preds ! i) ! j = (1 / 2 < data p ! j)
                  \<and> (data p ! j = 1 / 2 \<longrightarrow> \<not> data (preds ! i) ! j))"
  proof (intro allI impI)
    fix i assume "i < depth scan"
    with each obtain p where "slice_probability rnd unet scan i = Inr p"
      "preds ! i = tensor_gt p (1 / 2)" by blast
    then show "\<exists>p. slice_probability rnd unet scan i = Inr p
            \<and> length (data (preds ! i)) = length (data p)
            \<and> (\<forall>j<length (data p).
                  data (preds ! i) ! j = (1 / 2 < data p ! j)
                  \<and> (data p ! j = 1 / 2 \<longrightarrow> \<not> data (preds ! i) ! j))"
      by (auto simp add: tensor_gt_def)
  qed
next
  assume "\<forall>i<depth scan. \<exists>p. slice_probability rnd unet scan i = Inr p"
  then show "\<exists>preds. predict_volume rnd unet scan = Inr preds"
    unfolding predict_volume_def by (intro predict_slices_total) simp
qed

theorem threshold_strict_witness:
  "log_images sample_image (AtriumSegmentation_forward exact (\<lambda>x. x) sample_image)
      (tensor_float exact sample_mask) ''Val'' sample_state
     = Inr (add_figure ''Val'' sample_figure sample_state)
   \<and> index00 (AtriumSegmentation_forward exact (\<lambda>x. x) sample_image)
     = Inr \<lparr>shape = [1, 2], data = [1 / 2, 1 / 2]\<rparr>
   \<and> data (right_overlay sample_figure) = [None, None]
   \<and> slice_probability exact (\<lambda>x. x) sample_scan 0 = Inr \<lparr>shape = [1, 2], data = [1 / 2, 1 / 2]\<rparr>
   \<and> predict_volume exact (\<lambda>x. x) sample_scan = Inr [\<lparr>shape = [1, 2], data = [False, False]\<rparr>]"
proof -
  have idx: "index00 (AtriumSegmentation_forward exact (\<lambda>x. x) sample_image)
     = Inr \<lparr>shape = [1, 2], data = [1 / 2, 1 / 2]\<rparr>"
    by (simp add: sample_prediction index00_def index0_def)
  have fig: "data (right_overlay sample_figure) = [None, None]"
    by (simp add: sample_figure_def)
  show ?thesis
    using threshold_strict [of sample_image "AtriumSegmentation_forward exact (\<lambda>x. x) sample_image"
        "tensor_float exact sample_mask" "''Val''" sample_state
        "add_figure ''Val'' sample_figure sample_state" exact "\<lambda>x. x" sample_scan
        "[\<lparr>shape = [1, 2], data = [False, False]\<rparr>]"]
      sample_log_images [of "''Val''" sample_state] idx fig
      sample_slice_probability sample_predict_volume
    by simp
qed

section \<open>Checkpoint selection\<close>

lemma take_insort_key_take:
  "take K (insort_key f c (take K xs)) = take K (insort_key f c xs)"
proof (induction xs arbitrary: K)
  case Nil
  then show ?case by simp
next
  case (Cons y ys)
  show ?case
  proof (cases K)
    case 0
    then show ?thesis by simp
  next
    case (Suc k)
    show ?thesis
    proof (cases "f c \<le> f y")
      case True
      have "take k (y # take k ys) = take k (y # ys)"
        by (cases k) simp_all
      with True Suc show ?thesis by simp
    next
      case False
      with Suc Cons.IH [of k] show ?thesis by simp
    qed
  qed
qed

lemma insort_key_greatest:
  "\<forall>x\<in>set xs. f x < f c \<Longrightarrow> insort_key f c xs = xs @ [c]"
  by (induction xs) auto

lemma sort_key_snoc:
  "f c \<notin> f ` set cs \<Longrightarrow> sort_key f (cs @ [c]) = insort_key f c (sort_key f cs)"
proof (induction cs)
  case Nil
  then show ?case by simp
next
  case (Cons a cs)
  then have "f c \<noteq> f a" by auto
  then have "insort_key f a (insort_key f c (sort_key f cs)) =
             insort_key f c (insort_key f a (sort_key f cs))"
    by (rule insort_key_left_comm)
  with Cons show ?case by simp
qed

text \<open>
  One transition, on a sorted list of at most \<open>K\<close> records none of which has the
  candidate's metric: the first \<open>K\<close> records of the list with the candidate inserted.
\<close>

lemma on_validation_end_take:
  assumes "length retained \<le> K" and "sorted (map metric retained)"
    and "\<forall>r\<in>set retained. metric r \<noteq> metric c"
  shows "on_validation_end K retained c = take K (insort_key metric c retained)"
proof (cases "length retained < K \<or> (retained \<noteq> [] \<and> metric c < metric (last retained))")
  case True
  let ?inserted = "insort_key metric c retained"
  have "(if K < length ?inserted then butlast ?inserted else ?inserted) = take K ?inserted"
  proof (cases "K < length ?inserted")
    case True
    with assms(1) have "length ?inserted - 1 = K" by simp
    with True show ?thesis by (simp only: butlast_conv_take if_True)
  next
    case False
    then show ?thesis by simp
  qed
  with True show ?thesis
    by (simp add: on_validation_end_def Let_def del: length_insort)
next
  case False
  then have full: "length retained = K" using assms(1) by simp
  have "\<forall>r\<in>set retained. metric r < metric c"
  proof
    fix r assume r: "r \<in> set retained"
    then have ne: "retained \<noteq> []" by auto
    with False have "metric (last retained) \<le> metric c" by simp
    moreover have "metric r \<le> metric (last retained)"
    proof -
      from r obtain i where i: "i < length retained" "retained ! i = r"
        by (auto simp: in_set_conv_nth)
      have "map metric retained ! i \<le> map metric retained ! (length retained - 1)"
        using assms(2) i(1) by (intro sorted_nth_mono) simp_all
      with i ne show ?thesis by (simp add: last_conv_nth)
    qed
    ultimately show "metric r < metric c" using assms(3) r by fastforce
  qed
  then have "insort_key metric c retained = retained @ [c]"
    by (rule insort_key_greatest)
  with False full show ?thesis
    by (simp add: on_validation_end_def)
qed

lemma retained_after_snoc:
  "retained_after K (cs @ [c]) = on_validation_end K (retained_after K cs) c"
  by (simp add: retained_after_def)

lemma retained_after_sorted_prefix:
  "distinct (map metric cs) \<Longrightarrow> retained_after K cs = take K (sort_key metric cs)"
proof (induction cs rule: rev_induct)
  case Nil
  then show ?case by (simp add: retained_after_def)
next
  case (snoc c cs)
  let ?kept = "take K (sort_key metric cs)"
  from snoc have IH: "retained_after K cs = ?kept" and fresh: "metric c \<notin> metric ` set cs"
    by auto
  have "sorted (take K (map metric (sort_key metric cs)))"
    by (rule sorted_wrt_take) simp
  then have "sorted (map metric ?kept)"
    by (simp add: take_map)
  moreover have "\<forall>r\<in>set ?kept. metric r \<noteq> metric c"
  proof
    fix r assume "r \<in> set ?kept"
    then have "r \<in> set cs" by (auto dest: in_set_takeD)
    with fresh show "metric r \<noteq> metric c" by (metis imageI)
  qed
  ultimately have "on_validation_end K ?kept c = take K (insort_key metric c ?kept)"
    by (intro on_validation_end_take) simp_all
  also have "\<dots> = take K (insort_key metric c (sort_key metric cs))"
    by (rule take_insort_key_take)
  also have "\<dots> = take K (sort_key metric (cs @ [c]))"
    using fresh by (simp add: sort_key_snoc)
  finally show ?case
    by (simp add: retained_after_snoc IH)
qed

lemma on_validation_end_discard:
  assumes "length retained = K" and "\<forall>r\<in>set retained. metric r < metric c"
  shows "on_validation_end K retained c = retained"
proof (cases "retained = []")
  case True
  with assms show ?thesis by (simp add: on_validation_end_def)
next
  case False
  then have "metric (last retained) < metric c" using assms(2) by simp
  with assms(1) show ?thesis by (simp add: on_validation_end_def)
qed

lemma scenario_retained:
  "retained_after 2 scenario =
     [\<lparr>snapshot = (), epoch = 3, metric = 2 / 10\<rparr>, \<lparr>snapshot = (), epoch = 1, metric = 3 / 10\<rparr>]"
  by (simp add: scenario_def retained_after_def on_validation_end_def)

text \<open>
  Claim C5. After more than \<open>K\<close> candidates with pairwise distinct metric values the policy
  retains exactly \<open>K\<close> checkpoints: the first \<open>K\<close> of the candidates sorted by metric, so they
  are in ascending order, they are candidates, and each of them has a lower metric than
  every candidate that is not retained. A further candidate that is worse than every
  retained checkpoint leaves the list as it is. With \<open>K = 2\<close> and the metrics
  0.5, 0.3, 0.4, 0.2 the retained metrics are 0.2, 0.3. This holds for every \<open>K\<close>, the
  notebook's \<open>save_top_k = 10\<close> included.
\<close>

theorem checkpoint_policy_top_k:
  assumes "distinct (map metric cs)" and "K < length cs"
  shows "length (retained_after K cs) = K
       \<and> retained_after K cs = take K (sort_key metric cs)
       \<and> sorted (map metric (retained_after K cs))
       \<and> set (retained_after K cs) \<subseteq> set cs
       \<and> (\<forall>r\<in>set (retained_after K cs). \<forall>c\<in>set cs - set (retained_after K cs). metric r < metric c)
       \<and> (\<forall>c. (\<forall>r\<in>set (retained_after K cs). metric r < metric c) \<longrightarrow>
              on_validation_end K (retained_after K cs) c = retained_after K cs)
       \<and> map metric (retained_after 2 scenario) = [2 / 10, 3 / 10]"
proof -
  let ?sorted = "sort_key metric cs"
  have eq: "retained_after K cs = take K ?sorted"
    using assms(1) by (rule retained_after_sorted_prefix)
  have len: "length (retained_after K cs) = K"
    using assms(2) by (simp add: eq)
  have "sorted (take K (map metric ?sorted))"
    by (rule sorted_wrt_take) simp
  then have srt: "sorted (map metric (retained_after K cs))"
    by (simp add: eq take_map)
  have sub: "set (retained_after K cs) \<subseteq> set cs"
    by (auto simp add: eq dest!: in_set_takeD)
  have low: "metric r < metric c"
    if r: "r \<in> set (retained_after K cs)" and c: "c \<in> set cs - set (retained_after K cs)" for r c
  proof -
    have split: "?sorted = take K ?sorted @ drop K ?sorted" by simp
    have "c \<in> set ?sorted" using c by simp
    then have "c \<in> set (take K ?sorted) \<union> set (drop K ?sorted)"
      by (metis split set_append)
    with c have cd: "c \<in> set (drop K ?sorted)" by (simp add: eq)
    have "sorted (map metric (take K ?sorted) @ map metric (drop K ?sorted))"
      by (simp add: map_append [symmetric] del: map_append)
    then have "metric r \<le> metric c"
      using r cd by (auto simp add: sorted_append eq)
    moreover have "metric r \<noteq> metric c"
    proof
      assume same: "metric r = metric c"
      have "r \<in> set cs" "c \<in> set cs" using r c sub by auto
      with same assms(1) have "r = c" by (auto simp: distinct_map inj_on_def)
      with r c show False by simp
    qed
    ultimately show ?thesis by simp
  qed
  have discard: "on_validation_end K (retained_after K cs) c = retained_after K cs"
    if "\<forall>r\<in>set (retained_after K cs). metric r < metric c" for c
    using len that by (rule on_validation_end_discard)
  have scen: "map metric (retained_after 2 scenario) = [2 / 10, 3 / 10]"
    by (simp add: scenario_retained)
  show ?thesis
    using len eq srt sub low discard scen by blast
qed

theorem checkpoint_policy_top_k_witness:
  "distinct (map metric scenario) \<and> 2 < length scenario
   \<and> retained_after 2 scenario =
       [\<lparr>snapshot = (), epoch = 3, metric = 2 / 10\<rparr>, \<lparr>snapshot = (), epoch = 1, metric = 3 / 10\<rparr>]
   \<and> on_validation_end 2 (retained_after 2 scenario) \<lparr>snapshot = (), epoch = 4, metric = 6 / 10\<rparr>
       = retained_after 2 scenario"
proof -
  have d: "distinct (map metric scenario)" and l: "2 < length scenario"
    by (simp_all add: scenario_def)
  have s: "sort_key metric scenario =
     [\<lparr>snapshot = (), epoch = 3, metric = 2 / 10\<rparr>, \<lparr>snapshot = (), epoch = 1, metric = 3 / 10\<rparr>,
      \<lparr>snapshot = (), epoch = 2, metric = 4 / 10\<rparr>, \<lparr>snapshot = (), epoch = 0, metric = 5 / 10\<rparr>]"
    by (simp add: scenario_def)
  from checkpoint_policy_top_k [OF d l] have
    r: "retained_after 2 scenario = take 2 (sort_key metric scenario)" and
    u: "\<forall>c. (\<forall>r\<in>set (retained_after 2 scenario). metric r < metric c) \<longrightarrow>
              on_validation_end 2 (retained_after 2 scenario) c = retained_after 2 scenario"
    by blast+
  have r': "retained_after 2 scenario =
       [\<lparr>snapshot = (), epoch = 3, metric = 2 / 10\<rparr>, \<lparr>snapshot = (), epoch = 1, metric = 3 / 10\<rparr>]"
    by (simp add: r s)
  have "\<forall>r\<in>set (retained_after 2 scenario). metric r < metric \<lparr>snapshot = (), epoch = 4, metric = 6 / 10\<rparr>"
    by (simp add: r')
  with u have "on_validation_end 2 (retained_after 2 scenario) \<lparr>snapshot = (), epoch = 4, metric = 6 / 10\<rparr>
       = retained_after 2 scenario"
    by blast
  with d l r' show ?thesis by blast
qed

end
